theory Spec2Isabelle
  imports Main
begin

section \<open>Data model\<close>

text \<open>
  Modelled from the spec: the \<open>Message\<close> class of \<open>chat.models\<close> is imported by
  \<open>chat_manager.py\<close> but its declaration is not among the sources. The spec's data model
  gives a message a role, a content that is either a plain string or an ordered sequence
  of typed parts, and the optional tool metadata \<open>server\<close>, \<open>tool\<close>, \<open>arguments\<close>.
  The source reads a part with \<open>part.get('type')\<close> and \<open>part.get('text')\<close>, so a part is
  a dictionary from keys to strings. The role is a Python string (\<open>"user"\<close>,
  \<open>"assistant"\<close>), as in \<open>create_message("user", ...)\<close>.
\<close>

type_synonym part = "string \<rightharpoonup> string"

datatype content = PlainText string | PartSequence "part list"

type_synonym arguments = "string \<rightharpoonup> string"

record message =
  role :: string
  content :: content
  server :: "string option"
  tool :: "string option"
  arguments :: "arguments option"

text \<open>
  Modelled from the spec: the \<open>Chat\<close> record of \<open>chat.models\<close> that the chat service
  returns (section 6: \<open>createChat(transcript, correlationId, sessionId)\<close>), with its id,
  its messages and its correlation id. The manager reads its \<open>id\<close> and, in
  \<open>_load_chat\<close>, its \<open>messages\<close>.

  \<open>_load_chat\<close> (lines 80-81) binds \<open>self.messages\<close> to the list object of the loaded
  record and \<open>self.current_chat\<close> to that record, so every later
  \<open>self.messages.append\<close> shows in the record that is handed to the provider. The
  record held in \<open>self.current_chat\<close> therefore names its list by reference:
  \<open>ManagerList\<close> is the list object \<open>self.messages\<close>, \<open>OwnList\<close> another list, which
  the manager never changes. A record as a collaborator reads it holds the messages
  themselves.
\<close>

datatype transcript_ref = ManagerList | OwnList "message list"

record 'm chat =
  record_id :: string
  record_messages :: 'm
  record_external_id :: "string option"

text \<open>
  The server configuration returned by \<open>mcp_service.get_config\<close>. The source tests
  \<open>hasattr(server_config, 'auto_confirm')\<close>: \<open>None\<close> stands for a configuration object
  without that attribute.
\<close>

record server_config =
  auto_confirm :: "string list option"

datatype error = EOFError | ProviderError string | ValueError string

text \<open>
  Every call that leaves the manager is recorded, in order, in a trace: the display
  manager, the console, \<open>input()\<close>, the provider (call and reply), the tool executor and
  the two persistence calls of the chat service.
\<close>

datatype event =
    DisplayMessagePanel message nat
  | ConsolePrint string
  | InputCall string
  | ProviderCall "message list" "message list chat option" "string option"
  | ProviderReply message "string option"
  | ExecuteTool string string arguments
  | CreateChat "message list" "string option" string
  | UpdateChat string "message list" "string option"
  | ClearLines nat
  | PrintError string
  | HandleCopyCommand string

text \<open>
  The fields of \<open>ChatManager\<close> that the turn controller reads or writes
  (\<open>mcp_servers\<close> is \<open>bot_config.mcp_servers\<close>; only its truthiness is used, so both
  \<open>None\<close> and the empty list are \<open>[]\<close>), together with the two pieces of the outside
  world the controller touches directly: the lines still to be read by \<open>input()\<close> and
  the trace of calls made so far. Logging under \<open>verbose\<close> is left out.
\<close>

record chat_manager =
  mcp_servers :: "string list"
  current_chat :: "transcript_ref chat option"
  external_id :: "string option"
  messages :: "message list"
  system_prompt :: "string option"
  chat_id :: string
  last_printed_text_output :: "string option"
  stdin :: "string list"
  events :: "event list"

text \<open>
  The collaborators of the manager, whose code is outside the sources, are parameters:
  the provider (which may raise), the tool extractor and executor of the MCP manager, the
  global \<open>mcp_service\<close> configuration, and the chat service. A record returned by
  \<open>create_chat\<close> or \<open>update_chat\<close> may keep the list object it was given
  (\<open>ManagerList\<close>) or hold a list of its own.
\<close>

record env =
  call_chat_completions ::
    "message list \<Rightarrow> message list chat option \<Rightarrow> string option \<Rightarrow>
       string + (message \<times> string option)"
  extract_mcp_tool_use :: "part list \<Rightarrow> (string \<times> string \<times> arguments) option"
  execute_tool :: "string \<Rightarrow> string \<Rightarrow> arguments \<Rightarrow> content"
  get_config :: "string \<Rightarrow> server_config option"
  create_chat :: "message list \<Rightarrow> string option \<Rightarrow> string \<Rightarrow> transcript_ref chat"
  update_chat :: "string \<Rightarrow> message list \<Rightarrow> string option \<Rightarrow> transcript_ref chat"
  get_chat :: "string \<Rightarrow> message list chat option"

section \<open>Helpers outside the sources\<close>

text \<open>
  Modelled from the spec: \<open>create_message\<close> of \<open>chat.utils.message_utils\<close> is called
  by the manager but is not among the sources. From its call sites
  (\<open>create_message("user", text)\<close> and
  \<open>create_message("user", results, server=..., tool=..., arguments=...)\<close>) and the spec's
  data model: it builds a message of the given role and content, the tool metadata being
  absent unless passed.
\<close>

definition create_message ::
  "string \<Rightarrow> content \<Rightarrow> string option \<Rightarrow> string option \<Rightarrow> arguments option \<Rightarrow> message" where
  "create_message r c server_name tool_name args =
     \<lparr>role = r, content = c, server = server_name, tool = tool_name, arguments = args\<rparr>"

text \<open>
  Modelled from the spec: \<open>contains_tool_use\<close> and \<open>split_content\<close> of
  \<open>chat.utils.tool_utils\<close> are not among the sources. Section 4.2:
  \<open>contains_tool_use(content)\<close> is true iff content is a sequence containing at least one
  tool-use-typed part; \<open>split_content(content)\<close> partitions the sequence into the
  non-tool-use parts (plain) and the tool-use parts (directive). A part is tool-use-typed
  when its \<open>type\<close> key is \<open>tool_use\<close>. On a plain string (where the source never calls
  it, \<open>contains_tool_use\<close> being false) \<open>split_content\<close> returns the string and no
  directive.
\<close>

definition is_tool_use_part :: "part \<Rightarrow> bool" where
  "is_tool_use_part p = (p ''type'' = Some ''tool_use'')"

fun contains_tool_use :: "content \<Rightarrow> bool" where
  "contains_tool_use (PlainText t) = False"
| "contains_tool_use (PartSequence ps) = list_ex is_tool_use_part ps"

fun split_content :: "content \<Rightarrow> content \<times> part list" where
  "split_content (PlainText t) = (PlainText t, [])"
| "split_content (PartSequence ps) =
     (PartSequence (filter (\<lambda>p. \<not> is_tool_use_part p) ps), filter is_tool_use_part ps)"

section \<open>Strings\<close>

text \<open>
  A Python \<open>str\<close> is a list of characters, each \<open>char\<close> standing for the code point of
  the same number (below 256). \<open>str.strip()\<close> removes the leading and trailing
  characters for which \<open>str.isspace\<close> holds; \<open>str.lower()\<close> maps \<open>A\<close>..\<open>Z\<close> and the
  upper-case letters of Latin-1 to their lower-case forms.
\<close>

definition isspace :: "char \<Rightarrow> bool" where
  "isspace c = (let n = (of_char c :: nat) in
     (9 \<le> n \<and> n \<le> 13) \<or> (28 \<le> n \<and> n \<le> 32) \<or> n = 133 \<or> n = 160)"

definition strip :: "string \<Rightarrow> string" where
  "strip t = rev (dropWhile isspace (rev (dropWhile isspace t)))"

definition lower_char :: "char \<Rightarrow> char" where
  "lower_char c = (let n = (of_char c :: nat) in
     if (65 \<le> n \<and> n \<le> 90) \<or> (192 \<le> n \<and> n \<le> 222 \<and> n \<noteq> 215)
     then char_of (n + 32) else c)"

definition lower :: "string \<Rightarrow> string" where
  "lower t = map lower_char t"

section \<open>The confirmation gate\<close>

definition emit :: "event \<Rightarrow> chat_manager \<Rightarrow> chat_manager" where
  "emit e s = s\<lparr>events := events s @ [e]\<rparr>"

definition confirm_prompt :: string where
  "confirm_prompt = CHR 0x0A # ''Would you like to proceed with tool execution? (y/n): ''"

definition please_answer :: string where
  "please_answer =
     ''[yellow]Please answer '' @ [CHR 0x27] @ ''y'' @ [CHR 0x27] @ '' or '' @
     [CHR 0x27] @ ''n'' @ [CHR 0x27] @ ''[/yellow]''"

definition tool_use_detected :: string where
  "tool_use_detected = CHR 0x0A # ''[yellow]Tool use detected in response:[/yellow]''"

text \<open>
  The \<open>while True\<close> loop of \<open>get_user_confirmation\<close> (lines 107-113), over the lines
  that \<open>input()\<close> will return. At the end of the input \<open>input()\<close> raises \<open>EOFError\<close>.
\<close>

fun confirmation_loop :: "string list \<Rightarrow> chat_manager \<Rightarrow> (error + bool) \<times> chat_manager" where
  "confirmation_loop [] s = (Inl EOFError, emit (InputCall confirm_prompt) (s\<lparr>stdin := []\<rparr>))"
| "confirmation_loop (a # rest) s =
     (let s1 = emit (InputCall confirm_prompt) (s\<lparr>stdin := rest\<rparr>);
          response = lower (strip a)
      in if response \<in> set [''y'', ''yes''] then (Inr True, s1)
         else if response \<in> set [''n'', ''no''] then (Inr False, s1)
         else confirmation_loop rest (emit (ConsolePrint please_answer) s1))"

text \<open>
  \<open>get_user_confirmation\<close> (lines 86-113). A Python string is truthy when it is not
  empty, a list when it is not empty, a configuration object when it is not \<open>None\<close>.
\<close>

definition auto_confirmed :: "env \<Rightarrow> string \<Rightarrow> string \<Rightarrow> chat_manager \<Rightarrow> bool" where
  "auto_confirmed E server_name tool_name s =
     (if server_name \<noteq> [] \<and> tool_name \<noteq> [] \<and> mcp_servers s \<noteq> [] then
        (case get_config E server_name of
           None \<Rightarrow> False
         | Some server_config \<Rightarrow>
             (case auto_confirm server_config of
                None \<Rightarrow> False
              | Some names \<Rightarrow> tool_name \<in> set names))
      else False)"

definition get_user_confirmation ::
  "env \<Rightarrow> part list \<Rightarrow> string \<Rightarrow> string \<Rightarrow> chat_manager \<Rightarrow> (error + bool) \<times> chat_manager" where
  "get_user_confirmation E tool_content server_name tool_name s =
     (if auto_confirmed E server_name tool_name s then (Inr True, s)
      else confirmation_loop (stdin s) (emit (ConsolePrint tool_use_detected) s))"

section \<open>The turn controller\<close>

text \<open>
  The text stored as last output (lines 119-123, 140-143, 163-166):
  the whole string, or \<open>next((part.get('text') for part in content
  if part.get('type') == 'text'), None)\<close>.
\<close>

fun text_output :: "content \<Rightarrow> string option" where
  "text_output (PlainText t) = Some t"
| "text_output (PartSequence ps) =
     (case find (\<lambda>p. p ''type'' = Some ''text'') ps of
        None \<Rightarrow> None
      | Some p \<Rightarrow> p ''text'')"

text \<open>
  \<open>self.messages.append(m)\<close>, the display of the message at its index, and the update
  of the last output from a content.
\<close>

definition append_and_display :: "message \<Rightarrow> chat_manager \<Rightarrow> chat_manager" where
  "append_and_display m s =
     emit (DisplayMessagePanel m (length (messages s))) (s\<lparr>messages := messages s @ [m]\<rparr>)"

definition no_exec_msg :: string where
  "no_exec_msg = ''Tool execution cancelled by user.''"

text \<open>
  The record in \<open>self.current_chat\<close> as a collaborator reads it while
  \<open>self.messages\<close> holds \<open>ms\<close>.
\<close>

definition chat_as_read ::
  "message list \<Rightarrow> transcript_ref chat option \<Rightarrow> message list chat option" where
  "chat_as_read ms cc =
     (case cc of
        None \<Rightarrow> None
      | Some c \<Rightarrow>
          Some \<lparr>record_id = record_id c,
                record_messages = (case record_messages c of ManagerList \<Rightarrow> ms | OwnList l \<Rightarrow> l),
                record_external_id = record_external_id c\<rparr>)"

text \<open>
  \<open>_load_chat\<close> (lines 73-84): the loaded record becomes the current chat and its list
  becomes \<open>self.messages\<close>; \<open>self.external_id\<close> is not set.
\<close>

definition load_chat :: "env \<Rightarrow> string \<Rightarrow> chat_manager \<Rightarrow> (error + unit) \<times> chat_manager" where
  "load_chat E i s =
     (case get_chat E i of
        None \<Rightarrow>
          (Inl (ValueError (''Chat '' @ i @ '' not found'')),
           emit (PrintError (''Chat '' @ i @ '' not found'')) s)
      | Some existing_chat \<Rightarrow>
          (Inr (),
           s\<lparr>messages := record_messages existing_chat,
             current_chat :=
               Some \<lparr>record_id = record_id existing_chat, record_messages = ManagerList,
                     record_external_id = record_external_id existing_chat\<rparr>\<rparr>))"

text \<open>\<open>persist_chat\<close> (lines 185-192).\<close>

definition persist_chat :: "env \<Rightarrow> chat_manager \<Rightarrow> chat_manager" where
  "persist_chat E s =
     (case current_chat s of
        None \<Rightarrow>
          emit (CreateChat (messages s) (external_id s) (chat_id s))
            (s\<lparr>current_chat := Some (create_chat E (messages s) (external_id s) (chat_id s))\<rparr>)
      | Some c \<Rightarrow>
          emit (UpdateChat (record_id c) (messages s) (external_id s))
            (s\<lparr>current_chat := Some (update_chat E (record_id c) (messages s) (external_id s))\<rparr>))"

text \<open>\<open>if external_id: self.external_id = external_id\<close> (lines 126-127).\<close>

definition store_external_id :: "string option \<Rightarrow> chat_manager \<Rightarrow> chat_manager" where
  "store_external_id x s =
     (case x of
        None \<Rightarrow> s
      | Some i \<Rightarrow> if i \<noteq> [] then s\<lparr>external_id := Some i\<rparr> else s)"

text \<open>
  \<open>process_user_message\<close> (lines 115-129) and \<open>process_assistant_message\<close>
  (lines 131-183) call each other with no bound of their own. The first argument bounds
  the number of nested \<open>process_user_message\<close> calls: \<open>None\<close> is a run that needs more.
  A result is the exception raised, if any, and the manager as the call leaves it;
  \<open>process_assistant_message\<close> also returns its argument object as the call leaves it,
  since it assigns to the message's fields in place. The provider is handed
  \<open>self.current_chat\<close>; what it reads there is the record as it is at the time of the
  call (\<open>chat_as_read\<close>).
\<close>

function process_user_message ::
    "nat \<Rightarrow> env \<Rightarrow> message \<Rightarrow> chat_manager \<Rightarrow> ((error + unit) \<times> chat_manager) option"
  and process_assistant_message ::
    "nat \<Rightarrow> env \<Rightarrow> message \<Rightarrow> chat_manager \<Rightarrow> ((error + unit) \<times> message \<times> chat_manager) option"
where
  "process_user_message 0 E user_message s = None"
| "process_user_message (Suc n) E user_message s =
     (let s1 = append_and_display user_message s;
          s2 = s1\<lparr>last_printed_text_output := text_output (content user_message)\<rparr>;
          c = chat_as_read (messages s2) (current_chat s2);
          s3 = emit (ProviderCall (messages s2) c (system_prompt s2)) s2
      in case call_chat_completions E (messages s2) c (system_prompt s2) of
           Inl e \<Rightarrow> Some (Inl (ProviderError e), s3)
         | Inr (assistant_message, ext) \<Rightarrow>
             (case process_assistant_message n E assistant_message
                     (store_external_id ext (emit (ProviderReply assistant_message ext) s3)) of
                None \<Rightarrow> None
              | Some (Inl e, m, s4) \<Rightarrow> Some (Inl e, s4)
              | Some (Inr u, m, s4) \<Rightarrow> Some (Inr (), persist_chat E s4)))"
| "process_assistant_message n E assistant_message s =
     (if \<not> contains_tool_use (content assistant_message) then
        Some (Inr (), assistant_message,
          (append_and_display assistant_message s)
            \<lparr>last_printed_text_output := text_output (content assistant_message)\<rparr>)
      else
        (case split_content (content assistant_message) of
           (plain_content, tool_content) \<Rightarrow>
             (case extract_mcp_tool_use E tool_content of
                None \<Rightarrow> Some (Inr (), assistant_message, s)
              | Some (server_name, tool_name, args) \<Rightarrow>
                  (let m = assistant_message
                         \<lparr>server := Some server_name, tool := Some tool_name,
                          arguments := Some args, content := plain_content\<rparr>;
                       s1 = (append_and_display m s)
                              \<lparr>last_printed_text_output := text_output plain_content\<rparr>
                   in case get_user_confirmation E tool_content server_name tool_name s1 of
                        (Inl e, s2) \<Rightarrow> Some (Inl e, m, s2)
                      | (Inr False, s2) \<Rightarrow>
                          Some (Inr (), m,
                            (emit (ConsolePrint
                               (CHR 0x0A # ''[yellow]'' @ no_exec_msg @ ''[/yellow]'')) s2)
                              \<lparr>messages := messages s2 @
                                 [create_message ''user'' (PlainText no_exec_msg) None None None]\<rparr>)
                      | (Inr True, s2) \<Rightarrow>
                          (case process_user_message n E
                                  (create_message ''user''
                                     (execute_tool E server_name tool_name args)
                                     (Some server_name) (Some tool_name) (Some args))
                                  (emit (ExecuteTool server_name tool_name args) s2) of
                             None \<Rightarrow> None
                           | Some (r, s3) \<Rightarrow> Some (r, m, s3))))))"
  by pat_completeness auto
termination
  by (relation "measure (\<lambda>x. case x of Inl (n, _) \<Rightarrow> 2 * n | Inr (n, _) \<Rightarrow> 2 * n + 1)") auto

text \<open>
  One pass of the loop of \<open>run\<close> for an input of type \<open>chat\<close> (lines 293-312). An
  input whose lower-cased text starts with \<open>copy \<close> goes to
  \<open>handle_copy_command\<close> of the input manager (input_manager.py, lines 78-124), every
  branch of which returns true, so the loop continues without processing it; the
  console and clipboard output of that command is one event. Any other input becomes a
  user message without tool metadata, the input line is cleared, and the message is
  processed.
\<close>

definition chat_input ::
  "nat \<Rightarrow> env \<Rightarrow> string \<Rightarrow> chat_manager \<Rightarrow> ((error + unit) \<times> chat_manager) option" where
  "chat_input n E user_input s =
     (if take 5 (lower user_input) = ''copy '' then
        Some (Inr (), emit (HandleCopyCommand user_input) s)
      else
        process_user_message n E
          (create_message ''user'' (PlainText user_input) None None None)
          (emit (ClearLines 1) s))"

section \<open>One round of a turn\<close>

text \<open>
  What one call of \<open>process_user_message\<close> does up to its nested call: it raises, or it
  finishes (the commit still to come), or it goes on with a tool result as the next user
  message. Used to reason about the recursion; \<open>process_user_message_round\<close> below proves
  that it agrees with the functions above.
\<close>

datatype round_outcome =
    Raised error chat_manager
  | Finished chat_manager
  | Continue message chat_manager

definition one_round :: "env \<Rightarrow> message \<Rightarrow> chat_manager \<Rightarrow> round_outcome" where
  "one_round E user_message s =
     (let s2 = (append_and_display user_message s)
                 \<lparr>last_printed_text_output := text_output (content user_message)\<rparr>;
          c = chat_as_read (messages s2) (current_chat s2);
          s3 = emit (ProviderCall (messages s2) c (system_prompt s2)) s2
      in case call_chat_completions E (messages s2) c (system_prompt s2) of
           Inl e \<Rightarrow> Raised (ProviderError e) s3
         | Inr (am, ext) \<Rightarrow>
             (let s4 = store_external_id ext (emit (ProviderReply am ext) s3)
              in if \<not> contains_tool_use (content am) then
                   Finished ((append_and_display am s4)
                      \<lparr>last_printed_text_output := text_output (content am)\<rparr>)
                 else
                   (case extract_mcp_tool_use E (snd (split_content (content am))) of
                      None \<Rightarrow> Finished s4
                    | Some (server_name, tool_name, args) \<Rightarrow>
                        (let m = am\<lparr>server := Some server_name, tool := Some tool_name,
                                    arguments := Some args,
                                    content := fst (split_content (content am))\<rparr>;
                             s5 = (append_and_display m s4)
                                    \<lparr>last_printed_text_output :=
                                       text_output (fst (split_content (content am)))\<rparr>;
                             g = get_user_confirmation E (snd (split_content (content am)))
                                   server_name tool_name s5
                         in case fst g of
                              Inl e \<Rightarrow> Raised e (snd g)
                            | Inr approved \<Rightarrow>
                                if approved then
                                  Continue
                                    (create_message ''user''
                                       (execute_tool E server_name tool_name args)
                                       (Some server_name) (Some tool_name) (Some args))
                                    (emit (ExecuteTool server_name tool_name args) (snd g))
                                else
                                  Finished ((emit (ConsolePrint
                                      (CHR 0x0A # ''[yellow]'' @ no_exec_msg @ ''[/yellow]''))
                                      (snd g))
                                    \<lparr>messages := messages (snd g) @
                                       [create_message ''user'' (PlainText no_exec_msg)
                                          None None None]\<rparr>)))))"

fun outcome_state :: "round_outcome \<Rightarrow> chat_manager" where
  "outcome_state (Raised e s) = s"
| "outcome_state (Finished s) = s"
| "outcome_state (Continue m s) = s"

section \<open>Observations on traces and transcripts\<close>

fun gate_event :: "event \<Rightarrow> bool" where
  "gate_event (ConsolePrint t) = True"
| "gate_event (InputCall t) = True"
| "gate_event e = False"

text \<open>The calls the gate makes, as a function of the lines typed.\<close>

fun loop_trace :: "string list \<Rightarrow> event list" where
  "loop_trace [] = [InputCall confirm_prompt]"
| "loop_trace (a # rest) =
     InputCall confirm_prompt #
       (if lower (strip a) \<in> set [''y'', ''yes'', ''n'', ''no''] then []
        else ConsolePrint please_answer # loop_trace rest)"

definition gate_trace :: "env \<Rightarrow> string \<Rightarrow> string \<Rightarrow> chat_manager \<Rightarrow> event list" where
  "gate_trace E server_name tool_name s =
     (if auto_confirmed E server_name tool_name s then []
      else ConsolePrint tool_use_detected # loop_trace (stdin s))"

fun is_persist :: "event \<Rightarrow> bool" where
  "is_persist (CreateChat ms x i) = True"
| "is_persist (UpdateChat i ms x) = True"
| "is_persist e = False"

fun persisted_transcript :: "event \<Rightarrow> message list option" where
  "persisted_transcript (CreateChat ms x i) = Some ms"
| "persisted_transcript (UpdateChat i ms x) = Some ms"
| "persisted_transcript e = None"

fun is_provider_call :: "event \<Rightarrow> bool" where
  "is_provider_call (ProviderCall ms c sp) = True"
| "is_provider_call e = False"

fun is_execute_tool :: "event \<Rightarrow> bool" where
  "is_execute_tool (ExecuteTool sv t a) = True"
| "is_execute_tool e = False"

text \<open>
  Whether a provider call was handed the record \<open>cc\<close> as it reads at the time of the
  call, and the correlation id that a sequence of provider replies leaves stored, starting
  from the id \<open>x\<close>.
\<close>

fun handed_chat :: "transcript_ref chat option \<Rightarrow> event \<Rightarrow> bool" where
  "handed_chat cc (ProviderCall ms c sp) = (c = chat_as_read ms cc)"
| "handed_chat cc e = True"

fun stored_id :: "event list \<Rightarrow> string option \<Rightarrow> string option" where
  "stored_id [] x = x"
| "stored_id (ProviderReply m (Some i) # es) x = stored_id es (if i \<noteq> [] then Some i else x)"
| "stored_id (e # es) x = stored_id es x"

text \<open>The messages the provider returned, in order.\<close>

fun replies :: "event list \<Rightarrow> message list" where
  "replies [] = []"
| "replies (ProviderReply am ext # es) = am # replies es"
| "replies (e # es) = replies es"

text \<open>
  The messages that processing a user message appends after it, given the provider's
  replies \<open>ams\<close> in order. With no reply (the provider raised) nothing is appended. A
  reply without tool-use part is appended as it is and is the last. A reply whose
  directive cannot be parsed appends nothing and is the last. Otherwise the reply is
  appended as a directive, its content rewritten to the plain part and its three metadata
  fields set to what the extractor returned; after the directive comes nothing (the
  prompt was cut off), or the cancellation message, which carries no metadata, or the
  user message made from the executor's result with the directive's server, tool and
  arguments, followed by what processing that message appends.
\<close>

fun turn_appends :: "env \<Rightarrow> message list \<Rightarrow> message list \<Rightarrow> bool" where
  "turn_appends E [] app = (app = [])"
| "turn_appends E (am # ams) app =
     (if \<not> contains_tool_use (content am) then app = [am] \<and> ams = []
      else
        (case extract_mcp_tool_use E (snd (split_content (content am))) of
           None \<Rightarrow> app = [] \<and> ams = []
         | Some (server_name, tool_name, args) \<Rightarrow>
             (case app of
                [] \<Rightarrow> False
              | d # rest \<Rightarrow>
                  d = am\<lparr>server := Some server_name, tool := Some tool_name,
                         arguments := Some args,
                         content := fst (split_content (content am))\<rparr> \<and>
                  (case rest of
                     [] \<Rightarrow> ams = []
                   | m # rest' \<Rightarrow>
                       (m = create_message ''user'' (PlainText no_exec_msg) None None None \<and>
                        rest' = [] \<and> ams = []) \<or>
                       (m = create_message ''user''
                              (execute_tool E server_name tool_name args)
                              (Some server_name) (Some tool_name) (Some args) \<and>
                        turn_appends E ams rest')))))"

section \<open>An example session\<close>

text \<open>
  The scenario of the spec: the user sends \<open>list files\<close>, the provider answers with a
  tool-use part for server \<open>fs\<close>, tool \<open>list\<close>, arguments \<open>path = .\<close>, the executor
  returns \<open>a.txt, b.txt\<close>, and the provider's next answer is plain text.
\<close>

definition directive_reply :: message where
  "directive_reply =
     \<lparr>role = ''assistant'',
      content = PartSequence
        [[''type'' \<mapsto> ''text'', ''text'' \<mapsto> ''Listing''],
         [''type'' \<mapsto> ''tool_use'', ''server'' \<mapsto> ''fs'', ''tool'' \<mapsto> ''list'']],
      server = None, tool = None, arguments = None\<rparr>"

definition final_reply :: message where
  "final_reply =
     \<lparr>role = ''assistant'', content = PlainText ''Two files.'',
      server = None, tool = None, arguments = None\<rparr>"

definition malformed_reply :: message where
  "malformed_reply =
     \<lparr>role = ''assistant'', content = PartSequence [[''type'' \<mapsto> ''tool_use'']],
      server = None, tool = None, arguments = None\<rparr>"

definition directive_message :: message where
  "directive_message =
     \<lparr>role = ''assistant'',
      content = PartSequence [[''type'' \<mapsto> ''text'', ''text'' \<mapsto> ''Listing'']],
      server = Some ''fs'', tool = Some ''list'', arguments = Some [''path'' \<mapsto> ''.'']\<rparr>"

definition tool_result :: message where
  "tool_result =
     create_message ''user'' (PlainText ''a.txt, b.txt'')
       (Some ''fs'') (Some ''list'') (Some [''path'' \<mapsto> ''.''])"

definition cancellation :: message where
  "cancellation =
     create_message ''user'' (PlainText ''Tool execution cancelled by user.'') None None None"

text \<open>The transcript of a stored chat, with the id \<open>c0\<close>.\<close>

definition stored_transcript :: "message list" where
  "stored_transcript =
     [create_message ''user'' (PlainText ''hi'') None None None,
      \<lparr>role = ''assistant'', content = PlainText ''Hello.'',
       server = None, tool = None, arguments = None\<rparr>]"

definition example_env :: env where
  "example_env =
     \<lparr>call_chat_completions =
        (\<lambda>ms c sp. if ms \<noteq> [] \<and> content (last ms) = PlainText ''list files''
                    then Inr (directive_reply, Some ''id-1'')
                    else Inr (final_reply, Some ''id-2'')),
      extract_mcp_tool_use =
        (\<lambda>tc. case tc of
                 [] \<Rightarrow> None
               | p # ps \<Rightarrow>
                   (case (p ''server'', p ''tool'') of
                      (Some sv, Some t) \<Rightarrow> Some (sv, t, [''path'' \<mapsto> ''.''])
                    | _ \<Rightarrow> None)),
      execute_tool = (\<lambda>sv t a. PlainText ''a.txt, b.txt''),
      get_config = (\<lambda>sv. if sv = ''fs'' then Some \<lparr>auto_confirm = Some [''list'']\<rparr> else None),
      create_chat =
        (\<lambda>ms x i. \<lparr>record_id = i, record_messages = OwnList ms, record_external_id = x\<rparr>),
      update_chat =
        (\<lambda>i ms x. \<lparr>record_id = i, record_messages = OwnList ms, record_external_id = x\<rparr>),
      get_chat =
        (\<lambda>i. if i = ''c0''
             then Some \<lparr>record_id = ''c0'', record_messages = stored_transcript,
                         record_external_id = Some ''id-0''\<rparr>
             else None)\<rparr>"

text \<open>A new session; \<open>answers\<close> are the lines typed at the confirmation prompt.\<close>

definition new_session :: "string list \<Rightarrow> string list \<Rightarrow> chat_manager" where
  "new_session servers answers =
     \<lparr>mcp_servers = servers, current_chat = None, external_id = None, messages = [],
      system_prompt = Some ''prompt'', chat_id = ''c1'', last_printed_text_output = None,
      stdin = answers, events = []\<rparr>"

definition failing_env :: env where
  "failing_env =
     example_env\<lparr>call_chat_completions :=
        (\<lambda>ms c sp. if ms \<noteq> [] \<and> content (last ms) = PlainText ''list files''
                    then Inr (directive_reply, Some ''id-1'')
                    else Inl ''timeout'')\<rparr>"

text \<open>The session after \<open>_load_chat\<close> of the stored chat.\<close>

definition loaded_session :: chat_manager where
  "loaded_session = snd (load_chat example_env ''c0'' (new_session [''fs''] []))"

text \<open>A provider whose reply, without tool-use part, already carries tool metadata.\<close>

definition adorned_reply :: message where
  "adorned_reply =
     \<lparr>role = ''assistant'', content = PlainText ''Done.'',
      server = Some ''fs'', tool = Some ''list'', arguments = Some [''path'' \<mapsto> ''.'']\<rparr>"

definition adorning_env :: env where
  "adorning_env =
     example_env\<lparr>call_chat_completions := (\<lambda>ms c sp. Inr (adorned_reply, None))\<rparr>"

definition list_files :: message where
  "list_files = create_message ''user'' (PlainText ''list files'') None None None"

section \<open>Frame properties of the helpers\<close>

lemma chat_as_read_simps [simp]:
  "chat_as_read ms None = None"
  "chat_as_read ms (Some c) =
     Some \<lparr>record_id = record_id c,
           record_messages = (case record_messages c of ManagerList \<Rightarrow> ms | OwnList l \<Rightarrow> l),
           record_external_id = record_external_id c\<rparr>"
  by (simp_all add: chat_as_read_def)

lemma chat_as_read_ids:
  "map_option record_id (chat_as_read ms cc) = map_option record_id cc"
  "map_option record_external_id (chat_as_read ms cc) = map_option record_external_id cc"
  by (cases cc; simp)+

lemma emit_fields [simp]:
  "messages (emit e s) = messages s"
  "events (emit e s) = events s @ [e]"
  "external_id (emit e s) = external_id s"
  "current_chat (emit e s) = current_chat s"
  "system_prompt (emit e s) = system_prompt s"
  "last_printed_text_output (emit e s) = last_printed_text_output s"
  "stdin (emit e s) = stdin s"
  "mcp_servers (emit e s) = mcp_servers s"
  "chat_id (emit e s) = chat_id s"
  by (simp_all add: emit_def)

lemma append_and_display_fields [simp]:
  "messages (append_and_display m s) = messages s @ [m]"
  "events (append_and_display m s) = events s @ [DisplayMessagePanel m (length (messages s))]"
  "external_id (append_and_display m s) = external_id s"
  "current_chat (append_and_display m s) = current_chat s"
  "system_prompt (append_and_display m s) = system_prompt s"
  "stdin (append_and_display m s) = stdin s"
  "mcp_servers (append_and_display m s) = mcp_servers s"
  "chat_id (append_and_display m s) = chat_id s"
  by (simp_all add: append_and_display_def)

lemma store_external_id_fields [simp]:
  "messages (store_external_id x s) = messages s"
  "events (store_external_id x s) = events s"
  "current_chat (store_external_id x s) = current_chat s"
  "system_prompt (store_external_id x s) = system_prompt s"
  "last_printed_text_output (store_external_id x s) = last_printed_text_output s"
  "stdin (store_external_id x s) = stdin s"
  "mcp_servers (store_external_id x s) = mcp_servers s"
  "chat_id (store_external_id x s) = chat_id s"
  "external_id (store_external_id x s) =
     (case x of None \<Rightarrow> external_id s
      | Some i \<Rightarrow> if i \<noteq> [] then Some i else external_id s)"
  by (auto simp: store_external_id_def split: option.splits)

lemma persist_chat_fields [simp]:
  "messages (persist_chat E s) = messages s"
  "external_id (persist_chat E s) = external_id s"
  "system_prompt (persist_chat E s) = system_prompt s"
  "last_printed_text_output (persist_chat E s) = last_printed_text_output s"
  "stdin (persist_chat E s) = stdin s"
  "mcp_servers (persist_chat E s) = mcp_servers s"
  "chat_id (persist_chat E s) = chat_id s"
  by (simp_all add: persist_chat_def split: option.splits)

lemma persist_chat_events:
  "\<exists>e. events (persist_chat E s) = events s @ [e] \<and> is_persist e \<and>
       persisted_transcript e = Some (messages s)"
  by (simp add: persist_chat_def split: option.splits)

lemma confirmation_loop_fields [simp]:
  "messages (snd (confirmation_loop xs s)) = messages s"
  "external_id (snd (confirmation_loop xs s)) = external_id s"
  "current_chat (snd (confirmation_loop xs s)) = current_chat s"
  "system_prompt (snd (confirmation_loop xs s)) = system_prompt s"
  "last_printed_text_output (snd (confirmation_loop xs s)) = last_printed_text_output s"
  "mcp_servers (snd (confirmation_loop xs s)) = mcp_servers s"
  "chat_id (snd (confirmation_loop xs s)) = chat_id s"
  by (induction xs arbitrary: s; simp add: Let_def)+

lemma confirmation_loop_events [simp]:
  "events (snd (confirmation_loop xs s)) = events s @ loop_trace xs"
  by (induction xs arbitrary: s) (simp_all add: Let_def)

lemma loop_trace_gate_events [simp]: "list_all gate_event (loop_trace xs)"
  by (induction xs) simp_all


lemma get_user_confirmation_fields [simp]:
  "messages (snd (get_user_confirmation E tc sv t s)) = messages s"
  "external_id (snd (get_user_confirmation E tc sv t s)) = external_id s"
  "current_chat (snd (get_user_confirmation E tc sv t s)) = current_chat s"
  "system_prompt (snd (get_user_confirmation E tc sv t s)) = system_prompt s"
  "last_printed_text_output (snd (get_user_confirmation E tc sv t s)) =
     last_printed_text_output s"
  "mcp_servers (snd (get_user_confirmation E tc sv t s)) = mcp_servers s"
  "chat_id (snd (get_user_confirmation E tc sv t s)) = chat_id s"
  by (simp_all add: get_user_confirmation_def)

lemma get_user_confirmation_events [simp]:
  "events (snd (get_user_confirmation E tc sv t s)) = events s @ gate_trace E sv t s"
  by (simp add: get_user_confirmation_def gate_trace_def)

lemma gate_trace_gate_events [simp]: "list_all gate_event (gate_trace E sv t s)"
  by (simp add: gate_trace_def)


lemma gate_events_filters:
  "list_all gate_event ev \<Longrightarrow>
     filter is_persist ev = [] \<and> filter is_provider_call ev = [] \<and>
     filter is_execute_tool ev = []"
proof (induction ev)
  case Nil
  show ?case by simp
next
  case (Cons e ev)
  then show ?case by (cases e) simp_all
qed

lemma gate_trace_filters [simp]:
  "filter is_persist (gate_trace E sv t s) = []"
  "filter is_provider_call (gate_trace E sv t s) = []"
  "filter is_execute_tool (gate_trace E sv t s) = []"
  using gate_events_filters [OF gate_trace_gate_events [of E sv t s]] by simp_all

section \<open>The recursion, one round at a time\<close>

lemma process_user_message_round:
  "process_user_message (Suc n) E um s =
     (case one_round E um s of
        Raised e s' \<Rightarrow> Some (Inl e, s')
      | Finished s' \<Rightarrow> Some (Inr (), persist_chat E s')
      | Continue um' s' \<Rightarrow>
          (case process_user_message n E um' s' of
             None \<Rightarrow> None
           | Some (Inl e, s'') \<Rightarrow> Some (Inl e, s'')
           | Some (Inr u, s'') \<Rightarrow> Some (Inr (), persist_chat E s'')))"
  by (auto simp: one_round_def Let_def
      simp del: get_user_confirmation_fields get_user_confirmation_events
      split: sum.splits option.splits prod.splits bool.splits)


section \<open>The confirmation gate: claims\<close>

lemma confirmation_loop_end_of_input:
  assumes "\<forall>a \<in> set xs. lower (strip a) \<notin> set [''y'', ''yes'', ''n'', ''no'']"
  shows "fst (confirmation_loop xs s) = Inl EOFError"
  using assms by (induction xs arbitrary: s) (simp_all add: Let_def)

text \<open>
  C7. Whatever lines are typed, the confirmation loop asks again after every answer that,
  stripped of surrounding whitespace and lower-cased, is none of \<open>y\<close>, \<open>yes\<close>, \<open>n\<close>,
  \<open>no\<close>, and stops at the first answer that is one of them: it returns true for \<open>y\<close>
  and \<open>yes\<close>, false for \<open>n\<close> and \<open>no\<close>, has read exactly the answers up to that one,
  and has printed the notice once for each answer before it.
\<close>

theorem confirmation_loop_first_recognised:
  assumes "\<forall>b \<in> set pre. lower (strip b) \<notin> set [''y'', ''yes'', ''n'', ''no'']"
    and "lower (strip a) \<in> set [''y'', ''yes'', ''n'', ''no'']"
  shows "confirmation_loop (pre @ a # rest) s =
           (Inr (lower (strip a) \<in> set [''y'', ''yes'']),
            s\<lparr>stdin := rest,
              events := events s @
                concat (map (\<lambda>b. [InputCall confirm_prompt, ConsolePrint please_answer]) pre) @
                [InputCall confirm_prompt]\<rparr>)"
  using assms
proof (induction pre arbitrary: s)
  case Nil
  then show ?case by (auto simp: Let_def emit_def)
next
  case (Cons b pre)
  then show ?case by (simp add: Let_def emit_def)
qed

theorem confirmation_loop_first_recognised_witness:
  "lower (strip ''maybe'') = ''maybe'' \<and>
   lower (strip '' YES '') = ''yes'' \<and>
   confirmation_loop [''maybe'', '' YES '', ''n''] (new_session [] []) =
     (Inr True,
      (new_session [] [])\<lparr>stdin := [''n''],
        events := [InputCall confirm_prompt, ConsolePrint please_answer,
                   InputCall confirm_prompt]\<rparr>)"
proof -
  have no: "lower (strip ''maybe'') = ''maybe''"
    by code_simp
  then have pre: "\<forall>b \<in> set [''maybe'']. lower (strip b) \<notin> set [''y'', ''yes'', ''n'', ''no'']"
    by simp
  have yes: "lower (strip '' YES '') = ''yes''"
    by code_simp
  then have a: "lower (strip '' YES '') \<in> set [''y'', ''yes'', ''n'', ''no'']"
    by simp
  from confirmation_loop_first_recognised [OF pre a, of "[''n'']" "new_session [] []"]
  show ?thesis using no yes by (simp add: new_session_def)
qed

text \<open>
  C6 (as amended). When the server name and the tool name are not empty, the bot has at
  least one MCP server configured, and the tool name is in the auto-confirm list of the
  named server's configuration, the gate returns true at once: the manager is unchanged,
  so nothing was printed and \<open>input()\<close> was called zero times.
\<close>

theorem auto_confirm_bypass:
  assumes "server_name \<noteq> []" and "tool_name \<noteq> []" and "mcp_servers s \<noteq> []"
    and "get_config E server_name = Some cfg"
    and "auto_confirm cfg = Some names"
    and "tool_name \<in> set names"
  shows "get_user_confirmation E tool_content server_name tool_name s = (Inr True, s)"
  using assms by (simp add: get_user_confirmation_def auto_confirmed_def)

theorem auto_confirm_bypass_witness:
  "get_config example_env ''fs'' = Some \<lparr>auto_confirm = Some [''list'']\<rparr> \<and>
   get_user_confirmation example_env [] ''fs'' ''list'' (new_session [''fs''] [''n'']) =
     (Inr True, new_session [''fs''] [''n''])"
proof -
  have cfg: "get_config example_env ''fs'' = Some \<lparr>auto_confirm = Some [''list'']\<rparr>"
    by (simp add: example_env_def)
  have "get_user_confirmation example_env [] ''fs'' ''list'' (new_session [''fs''] [''n'']) =
     (Inr True, new_session [''fs''] [''n''])"
    by (rule auto_confirm_bypass
        [where cfg = "\<lparr>auto_confirm = Some [''list'']\<rparr>" and names = "[''list'']"])
      (simp_all add: new_session_def example_env_def)
  with cfg show ?thesis by simp
qed

text \<open>
  C6 as stated fails: with no MCP server configured for the bot, a tool that is in the
  auto-confirm list of its server's configuration is still asked about; here the answer
  \<open>n\<close> is read and the gate returns false.
\<close>

theorem auto_confirm_skipped_without_mcp_servers:
  "get_config example_env ''fs'' = Some \<lparr>auto_confirm = Some [''list'']\<rparr> \<and>
   get_user_confirmation example_env [] ''fs'' ''list'' (new_session [] [''n'']) =
     (Inr False,
      (new_session [] [])\<lparr>events :=
         [ConsolePrint tool_use_detected, InputCall confirm_prompt]\<rparr>)"
  by (simp add: example_env_def get_user_confirmation_def auto_confirmed_def new_session_def
      emit_def Let_def lower_def strip_def lower_char_def isspace_def)

section \<open>The assistant message: claims\<close>

lemma find_as_filter:
  "find P xs = (case filter P xs of [] \<Rightarrow> None | x # ys \<Rightarrow> Some x)"
  by (induction xs) simp_all

text \<open>
  C8. An assistant message whose content holds no tool-use part is appended as it is and
  displayed; nothing else is called (the display is the only new event, with any bound on
  the recursion, so there is no nested call), the message object is unchanged, and the
  last output becomes the whole string of a plain content, or the \<open>text\<close> of the first
  text-typed part of a sequence (none when the sequence has no text-typed part).
\<close>

theorem terminal_assistant_message:
  assumes "\<not> contains_tool_use (content am)"
  shows "process_assistant_message n E am s =
           Some (Inr (), am,
             s\<lparr>messages := messages s @ [am],
               last_printed_text_output := text_output (content am),
               events := events s @ [DisplayMessagePanel am (length (messages s))]\<rparr>) \<and>
         (\<forall>t. content am = PlainText t \<longrightarrow> text_output (content am) = Some t) \<and>
         (\<forall>ps. content am = PartSequence ps \<longrightarrow>
            text_output (content am) =
              (case filter (\<lambda>p. p ''type'' = Some ''text'') ps of
                 [] \<Rightarrow> None
               | p # qs \<Rightarrow> p ''text''))"
  using assms
  by (auto simp: append_and_display_def emit_def find_as_filter split: list.splits)

theorem terminal_assistant_message_witness:
  "\<not> contains_tool_use (content final_reply) \<and>
   process_assistant_message 0 example_env final_reply (new_session [] []) =
     Some (Inr (), final_reply,
       (new_session [] [])\<lparr>messages := [final_reply],
          last_printed_text_output := Some ''Two files.'',
          events := [DisplayMessagePanel final_reply 0]\<rparr>)"
proof -
  have h: "\<not> contains_tool_use (content final_reply)"
    by (simp add: final_reply_def)
  have c: "content final_reply = PlainText ''Two files.''"
    by (simp add: final_reply_def)
  from terminal_assistant_message [OF h, of 0 example_env "new_session [] []"] h c
  show ?thesis by (simp add: new_session_def)
qed

text \<open>
  C5. When the content holds a tool-use part and the extractor cannot parse the
  directive, \<open>process_assistant_message\<close> returns normally (with any bound on the
  recursion) and leaves everything as it was: the manager, hence the transcript and the
  trace (no gate, executor or provider call), and the assistant message object.
\<close>

theorem malformed_directive_aborts:
  assumes "contains_tool_use (content am)"
    and "extract_mcp_tool_use E (snd (split_content (content am))) = None"
  shows "process_assistant_message n E am s = Some (Inr (), am, s)"
  using assms by (auto split: prod.splits)

theorem malformed_directive_aborts_witness:
  "contains_tool_use (content malformed_reply) \<and>
   extract_mcp_tool_use example_env (snd (split_content (content malformed_reply))) = None \<and>
   process_assistant_message 0 example_env malformed_reply (new_session [''fs''] []) =
     Some (Inr (), malformed_reply, new_session [''fs''] [])"
proof -
  have a: "contains_tool_use (content malformed_reply)"
    by (simp add: malformed_reply_def is_tool_use_part_def)
  have b: "extract_mcp_tool_use example_env (snd (split_content (content malformed_reply))) = None"
    by (simp add: malformed_reply_def is_tool_use_part_def example_env_def)
  from malformed_directive_aborts [OF a b, of 0 "new_session [''fs''] []"] a b
  show ?thesis by simp
qed

lemma gate_event_not_call:
  "list_all gate_event ev \<Longrightarrow> \<not> list_ex is_execute_tool ev \<and> \<not> list_ex is_provider_call ev"
proof (induction ev)
  case Nil
  show ?case by simp
next
  case (Cons e ev)
  then show ?case by (cases e) simp_all
qed

text \<open>
  C4. When the gate denies a parsed directive, \<open>process_assistant_message\<close> returns
  normally (with any bound on the recursion, so without a nested call): after the
  assistant message the transcript holds exactly one more message, the user message with
  the fixed cancellation notice and no metadata; the calls made are the display of the
  assistant message, the gate's own console and input calls, and the printing of the
  notice: no executor call and no provider call.
\<close>

theorem denied_tool_use:
  assumes "contains_tool_use (content am)"
    and "split_content (content am) = (plain_content, tool_content)"
    and "extract_mcp_tool_use E tool_content = Some (server_name, tool_name, args)"
    and "m = am\<lparr>server := Some server_name, tool := Some tool_name,
                 arguments := Some args, content := plain_content\<rparr>"
    and "get_user_confirmation E tool_content server_name tool_name
           ((append_and_display m s)\<lparr>last_printed_text_output := text_output plain_content\<rparr>) =
         (Inr False, sg)"
  shows "\<exists>ev. process_assistant_message n E am s =
           Some (Inr (), m,
             sg\<lparr>messages := messages s @
                  [m, create_message ''user''
                        (PlainText ''Tool execution cancelled by user.'') None None None],
                events := events s @ DisplayMessagePanel m (length (messages s)) # ev @
                  [ConsolePrint
                     (CHR 0x0A # ''[yellow]Tool execution cancelled by user.[/yellow]'')]\<rparr>) \<and>
           list_all gate_event ev \<and> \<not> list_ex is_execute_tool ev \<and>
           \<not> list_ex is_provider_call ev"
proof -
  let ?s1 = "(append_and_display m s)\<lparr>last_printed_text_output := text_output plain_content\<rparr>"
  let ?ev = "gate_trace E server_name tool_name ?s1"
  have sg: "sg = snd (get_user_confirmation E tool_content server_name tool_name ?s1)"
    using assms(5) by simp
  have msgs: "messages sg = messages s @ [m]"
    unfolding sg by simp
  have evs: "events sg = events s @ DisplayMessagePanel m (length (messages s)) # ?ev"
    unfolding sg by simp
  have run: "process_assistant_message n E am s =
      Some (Inr (), m,
        (emit (ConsolePrint (CHR 0x0A # ''[yellow]'' @ no_exec_msg @ ''[/yellow]'')) sg)
          \<lparr>messages := messages sg @
             [create_message ''user'' (PlainText no_exec_msg) None None None]\<rparr>)"
    using assms by (simp add: Let_def)
  have "process_assistant_message n E am s =
           Some (Inr (), m,
             sg\<lparr>messages := messages s @
                  [m, create_message ''user''
                        (PlainText ''Tool execution cancelled by user.'') None None None],
                events := events s @ DisplayMessagePanel m (length (messages s)) # ?ev @
                  [ConsolePrint
                     (CHR 0x0A # ''[yellow]Tool execution cancelled by user.[/yellow]'')]\<rparr>)"
    unfolding run by (simp add: emit_def msgs evs no_exec_msg_def)
  moreover have "list_all gate_event ?ev" by simp
  moreover from gate_event_not_call [OF this]
  have "\<not> list_ex is_execute_tool ?ev \<and> \<not> list_ex is_provider_call ?ev" .
  ultimately show ?thesis by blast
qed


section \<open>Rounds: what one round adds\<close>

lemma stored_id_reply [simp]:
  "stored_id (ProviderReply m x # es) y =
     stored_id es (case x of None \<Rightarrow> y | Some i \<Rightarrow> if i \<noteq> [] then Some i else y)"
  by (cases x) simp_all

lemma stored_id_append [simp]:
  "stored_id (ev @ ev') x = stored_id ev' (stored_id ev x)"
proof (induction ev arbitrary: x)
  case Nil
  show ?case by simp
next
  case (Cons e ev)
  then show ?case by (cases e) simp_all
qed

lemma stored_id_gate_events:
  "list_all gate_event ev \<Longrightarrow> stored_id ev x = x"
proof (induction ev)
  case Nil
  show ?case by simp
next
  case (Cons e ev)
  then show ?case by (cases e) simp_all
qed

lemma stored_id_gate_trace [simp]: "stored_id (gate_trace E sv t s) x = x"
  by (rule stored_id_gate_events) simp

lemma persist_event_neutral:
  "is_persist e \<Longrightarrow>
     stored_id [e] x = x \<and> handed_chat cc e \<and> replies [e] = [] \<and>
     \<not> is_provider_call e \<and> \<not> is_execute_tool e"
  by (cases e) simp_all

lemma handed_gate_events:
  "list_all gate_event ev \<Longrightarrow> list_all (handed_chat cc) ev"
proof (induction ev)
  case Nil
  show ?case by simp
next
  case (Cons e ev)
  then show ?case by (cases e) simp_all
qed

lemma handed_gate_trace [simp]: "list_all (handed_chat cc) (gate_trace E sv t s)"
  by (rule handed_gate_events) simp

lemma replies_append [simp]: "replies (ev @ ev') = replies ev @ replies ev'"
proof (induction ev)
  case Nil
  show ?case by simp
next
  case (Cons e ev)
  then show ?case by (cases e) simp_all
qed

lemma replies_gate_events: "list_all gate_event ev \<Longrightarrow> replies ev = []"
proof (induction ev)
  case Nil
  show ?case by simp
next
  case (Cons e ev)
  then show ?case by (cases e) simp_all
qed

lemma replies_gate_trace [simp]: "replies (gate_trace E sv t s) = []"
  by (rule replies_gate_events) simp

lemma round_Raised:
  "one_round E um s = Raised e s1 \<Longrightarrow> \<exists>ev. events s1 = events s @ ev \<and> filter is_persist ev = []"
  by (auto simp: one_round_def Let_def split: sum.splits option.splits prod.splits if_splits)

lemma round_Finished:
  "one_round E um s = Finished s1 \<Longrightarrow>
     \<exists>ev. events s1 = events s @ ev \<and> filter is_persist ev = [] \<and>
          length (filter is_provider_call ev) = 1 \<and> filter is_execute_tool ev = []"
  by (auto simp: one_round_def Let_def split: sum.splits option.splits prod.splits if_splits)

lemma round_Continue:
  "one_round E um s = Continue um' s1 \<Longrightarrow>
     \<exists>ev. events s1 = events s @ ev \<and> filter is_persist ev = [] \<and>
          length (filter is_provider_call ev) = 1 \<and> length (filter is_execute_tool ev) = 1"
  by (auto simp: one_round_def Let_def split: sum.splits option.splits prod.splits if_splits)

lemma round_ids:
  "\<exists>ev. events (outcome_state (one_round E um s)) = events s @ ev \<and>
        external_id (outcome_state (one_round E um s)) = stored_id ev (external_id s) \<and>
        list_all (handed_chat (current_chat s)) ev \<and>
        current_chat (outcome_state (one_round E um s)) = current_chat s"
  by (auto simp: one_round_def Let_def split: sum.splits option.splits prod.splits)



lemma round_appends:
  "\<exists>ev app.
     events (outcome_state (one_round E um s)) = events s @ ev \<and>
     messages (outcome_state (one_round E um s)) = messages s @ um # app \<and>
     (case one_round E um s of
        Continue um' s1 \<Rightarrow>
          (\<exists>am sv t a.
             replies ev = [am] \<and> contains_tool_use (content am) \<and>
             extract_mcp_tool_use E (snd (split_content (content am))) = Some (sv, t, a) \<and>
             app = [am\<lparr>server := Some sv, tool := Some t, arguments := Some a,
                       content := fst (split_content (content am))\<rparr>] \<and>
             um' = create_message ''user'' (execute_tool E sv t a)
                     (Some sv) (Some t) (Some a))
      | Raised e s1 \<Rightarrow> turn_appends E (replies ev) app
      | Finished s1 \<Rightarrow> turn_appends E (replies ev) app)"
  by (auto simp: one_round_def Let_def split: sum.splits option.splits prod.splits)

section \<open>The recursion: claims\<close>

text \<open>
  C1 as stated fails: in the example session one user message with one approved tool
  round is followed by two storage writes, a create and an update.
\<close>

theorem two_writes_for_one_user_message:
  "map_option (filter is_persist \<circ> events \<circ> snd)
     (process_user_message (Suc (Suc 0)) example_env list_files (new_session [''fs''] [])) =
   Some [CreateChat [list_files, directive_message, tool_result, final_reply]
           (Some ''id-2'') ''c1'',
         UpdateChat ''c1'' [list_files, directive_message, tool_result, final_reply]
           (Some ''id-2'')]"
  by (simp add: example_env_def new_session_def list_files_def directive_reply_def
      final_reply_def directive_message_def tool_result_def create_message_def
      append_and_display_def emit_def store_external_id_def persist_chat_def
      get_user_confirmation_def auto_confirmed_def is_tool_use_part_def Let_def)

text \<open>
  C1 (as amended). A top-level user turn that returns has invoked the commit once for
  every call of \<open>process_user_message\<close> in it, that is once for every provider call, one
  more than the number of executed tool rounds; all these commits come after every other
  call of the turn (the recursion has reached its end before the first of them), and each
  writes the final transcript.
\<close>

theorem commits_follow_the_recursion:
  assumes "process_user_message n E um s = Some (Inr u, s')"
  shows "\<exists>pre post. events s' = events s @ pre @ post \<and>
           filter is_persist pre = [] \<and> list_all is_persist post \<and>
           length post = length (filter is_provider_call pre) \<and>
           length post = Suc (length (filter is_execute_tool pre)) \<and>
           list_all (\<lambda>e. persisted_transcript e = Some (messages s')) post"
  using assms
proof (induction n arbitrary: um s s' u)
  case 0
  then show ?case by simp
next
  case (Suc n)
  from Suc.prems have run:
    "(case one_round E um s of
        Raised e s' \<Rightarrow> Some (Inl e, s')
      | Finished s' \<Rightarrow> Some (Inr (), persist_chat E s')
      | Continue um' s' \<Rightarrow>
          (case process_user_message n E um' s' of
             None \<Rightarrow> None
           | Some (Inl e, s'') \<Rightarrow> Some (Inl e, s'')
           | Some (Inr u, s'') \<Rightarrow> Some (Inr (), persist_chat E s''))) = Some (Inr u, s')"
    by (simp only: process_user_message_round)
  show ?case
  proof (cases "one_round E um s")
    case (Raised e s1)
    with run show ?thesis by simp
  next
    case (Finished s1)
    with run have s': "s' = persist_chat E s1" by simp
    from round_Finished [OF Finished] obtain ev
      where ev: "events s1 = events s @ ev" "filter is_persist ev = []"
        "length (filter is_provider_call ev) = 1" "filter is_execute_tool ev = []"
      by blast
    from persist_chat_events [of E s1] obtain e
      where e: "events (persist_chat E s1) = events s1 @ [e]" "is_persist e"
        "persisted_transcript e = Some (messages s1)"
      by blast
    from s' ev e have
      "events s' = events s @ ev @ [e] \<and> filter is_persist ev = [] \<and>
       list_all is_persist [e] \<and> length [e] = length (filter is_provider_call ev) \<and>
       length [e] = Suc (length (filter is_execute_tool ev)) \<and>
       list_all (\<lambda>e. persisted_transcript e = Some (messages s')) [e]"
      by simp
    then show ?thesis by blast
  next
    case (Continue um' s1)
    with run obtain s2
      where inner: "process_user_message n E um' s1 = Some (Inr (), s2)"
        and s': "s' = persist_chat E s2"
      by (auto split: option.splits sum.splits prod.splits)
    from Suc.IH [OF inner] obtain pre post
      where pp: "events s2 = events s1 @ pre @ post" "filter is_persist pre = []"
        "list_all is_persist post" "length post = length (filter is_provider_call pre)"
        "length post = Suc (length (filter is_execute_tool pre))"
        "list_all (\<lambda>e. persisted_transcript e = Some (messages s2)) post"
      by blast
    from round_Continue [OF Continue] obtain ev
      where ev: "events s1 = events s @ ev" "filter is_persist ev = []"
        "length (filter is_provider_call ev) = 1" "length (filter is_execute_tool ev) = 1"
      by blast
    from persist_chat_events [of E s2] obtain e
      where e: "events (persist_chat E s2) = events s2 @ [e]" "is_persist e"
        "persisted_transcript e = Some (messages s2)"
      by blast
    from s' pp ev e have
      "events s' = events s @ (ev @ pre) @ (post @ [e]) \<and>
       filter is_persist (ev @ pre) = [] \<and> list_all is_persist (post @ [e]) \<and>
       length (post @ [e]) = length (filter is_provider_call (ev @ pre)) \<and>
       length (post @ [e]) = Suc (length (filter is_execute_tool (ev @ pre))) \<and>
       list_all (\<lambda>e. persisted_transcript e = Some (messages s')) (post @ [e])"
      by simp
    then show ?thesis by blast
  qed
qed

theorem commits_follow_the_recursion_witness:
  "\<exists>s'. process_user_message (Suc (Suc 0)) example_env list_files (new_session [''fs''] []) =
          Some (Inr (), s') \<and>
        (\<exists>pre post. events s' = events (new_session [''fs''] []) @ pre @ post \<and>
           filter is_persist pre = [] \<and> list_all is_persist post \<and>
           length post = length (filter is_provider_call pre) \<and>
           length post = Suc (length (filter is_execute_tool pre)) \<and>
           list_all (\<lambda>e. persisted_transcript e = Some (messages s')) post)"
proof -
  have "\<exists>s'. process_user_message (Suc (Suc 0)) example_env list_files
               (new_session [''fs''] []) = Some (Inr (), s')"
    by (simp add: example_env_def new_session_def list_files_def directive_reply_def
        final_reply_def create_message_def get_user_confirmation_def auto_confirmed_def
        is_tool_use_part_def Let_def)
  then obtain s' where run:
    "process_user_message (Suc (Suc 0)) example_env list_files (new_session [''fs''] []) =
       Some (Inr (), s')"
    by blast
  from run commits_follow_the_recursion [OF run] show ?thesis by blast
qed

lemma no_commit_on_exception:
  "process_user_message n E um s = Some (Inl e, s') \<Longrightarrow>
     \<exists>ev. events s' = events s @ ev \<and> filter is_persist ev = []"
proof (induction n arbitrary: um s)
  case 0
  then show ?case by simp
next
  case (Suc n)
  from Suc.prems have run:
    "(case one_round E um s of
        Raised e s' \<Rightarrow> Some (Inl e, s')
      | Finished s' \<Rightarrow> Some (Inr (), persist_chat E s')
      | Continue um' s' \<Rightarrow>
          (case process_user_message n E um' s' of
             None \<Rightarrow> None
           | Some (Inl e, s'') \<Rightarrow> Some (Inl e, s'')
           | Some (Inr u, s'') \<Rightarrow> Some (Inr (), persist_chat E s''))) = Some (Inl e, s')"
    by (simp only: process_user_message_round)
  show ?case
  proof (cases "one_round E um s")
    case (Raised e1 s1)
    with run round_Raised [OF Raised] show ?thesis by simp
  next
    case (Finished s1)
    with run show ?thesis by simp
  next
    case (Continue um' s1)
    with run have inner: "process_user_message n E um' s1 = Some (Inl e, s')"
      by (auto split: option.splits sum.splits prod.splits)
    from Suc.IH [OF inner] obtain ev2
      where ev2: "events s' = events s1 @ ev2" "filter is_persist ev2 = []"
      by blast
    from round_Continue [OF Continue] obtain ev
      where ev: "events s1 = events s @ ev" "filter is_persist ev = []"
      by blast
    from ev ev2 have "events s' = events s @ (ev @ ev2) \<and> filter is_persist (ev @ ev2) = []"
      by simp
    then show ?thesis by blast
  qed
qed


lemma persist_chat_neutral:
  "\<exists>e. events (persist_chat E s) = events s @ [e] \<and> stored_id [e] x = x \<and>
       handed_chat cc e \<and> replies [e] = []"
  using persist_chat_events [of E s] persist_event_neutral by blast

text \<open>
  C2 as stated fails. In the example session the first provider reply carries the id
  \<open>id-1\<close> and it is stored (it is what a turn cut short by a failing second call leaves
  behind); the second reply carries \<open>id-2\<close>, which replaces it. Both provider calls
  were handed no chat record, hence no id, the first commit coming only after them.
\<close>

theorem later_id_replaces_stored_id:
  "map_option (external_id \<circ> snd)
     (process_user_message (Suc (Suc 0)) failing_env list_files (new_session [''fs''] [])) =
     Some (Some ''id-1'') \<and>
   map_option (external_id \<circ> snd)
     (process_user_message (Suc (Suc 0)) example_env list_files (new_session [''fs''] [])) =
     Some (Some ''id-2'') \<and>
   map_option (filter is_provider_call \<circ> events \<circ> snd)
     (process_user_message (Suc (Suc 0)) example_env list_files (new_session [''fs''] [])) =
     Some [ProviderCall [list_files] None (Some ''prompt''),
           ProviderCall [list_files, directive_message, tool_result] None (Some ''prompt'')]"
  by (simp add: example_env_def failing_env_def new_session_def list_files_def
      directive_reply_def final_reply_def directive_message_def tool_result_def
      create_message_def append_and_display_def emit_def store_external_id_def
      persist_chat_def get_user_confirmation_def auto_confirmed_def is_tool_use_part_def
      Let_def)

text \<open>
  C2 (as amended). Over a turn, the stored correlation id follows the provider's replies:
  a reply with a non-null, non-empty id stores that id, replacing whatever was stored,
  and a reply with a null or empty id leaves the stored id as it is (\<open>stored_id\<close>).
  What a provider call is handed is the current chat record: every provider call of a
  turn is handed the record that the manager held when the turn began, as that record
  reads at the time of the call (\<open>handed_chat\<close>): its id and its correlation id are
  those of that record throughout the turn (\<open>chat_as_read_ids\<close>), and its messages are
  the transcript at the time of the call when the record shares the manager's list, as
  after loading a chat.
\<close>

theorem stored_id_follows_replies:
  assumes "process_user_message n E um s = Some (r, s')"
  shows "\<exists>ev. events s' = events s @ ev \<and>
           external_id s' = stored_id ev (external_id s) \<and>
           list_all (handed_chat (current_chat s)) ev"
  using assms
proof (induction n arbitrary: um s r s')
  case 0
  then show ?case by simp
next
  case (Suc n)
  from Suc.prems have run:
    "(case one_round E um s of
        Raised e s' \<Rightarrow> Some (Inl e, s')
      | Finished s' \<Rightarrow> Some (Inr (), persist_chat E s')
      | Continue um' s' \<Rightarrow>
          (case process_user_message n E um' s' of
             None \<Rightarrow> None
           | Some (Inl e, s'') \<Rightarrow> Some (Inl e, s'')
           | Some (Inr u, s'') \<Rightarrow> Some (Inr (), persist_chat E s''))) = Some (r, s')"
    by (simp only: process_user_message_round)
  from round_ids [of E um s] obtain ev
    where ev: "events (outcome_state (one_round E um s)) = events s @ ev"
      and ext: "external_id (outcome_state (one_round E um s)) = stored_id ev (external_id s)"
      and calls: "list_all (handed_chat (current_chat s)) ev"
      and cc: "current_chat (outcome_state (one_round E um s)) = current_chat s"
    by blast
  show ?case
  proof (cases "one_round E um s")
    case (Raised e s1)
    with run have "s' = s1" by simp
    with Raised ev ext calls show ?thesis by auto
  next
    case (Finished s1)
    with run have s': "s' = persist_chat E s1" by simp
    from persist_chat_neutral [of E s1 "stored_id ev (external_id s)" "current_chat s"]
    obtain e
      where e: "events (persist_chat E s1) = events s1 @ [e]"
        "stored_id [e] (stored_id ev (external_id s)) = stored_id ev (external_id s)"
        "handed_chat (current_chat s) e"
      by blast
    from s' Finished ev ext calls e have
      "events s' = events s @ (ev @ [e]) \<and>
       external_id s' = stored_id (ev @ [e]) (external_id s) \<and>
       list_all (handed_chat (current_chat s)) (ev @ [e])"
      by simp
    then show ?thesis by blast
  next
    case (Continue um' s1)
    with run obtain r2 s2
      where inner: "process_user_message n E um' s1 = Some (r2, s2)"
        and s': "s' = s2 \<or> s' = persist_chat E s2"
      by (auto split: option.splits sum.splits prod.splits)
    from Suc.IH [OF inner] obtain ev2
      where ev2: "events s2 = events s1 @ ev2"
        and ext2: "external_id s2 = stored_id ev2 (external_id s1)"
        and calls2: "list_all (handed_chat (current_chat s1)) ev2"
      by blast
    from Continue ev ext cc have s1:
      "events s1 = events s @ ev" "external_id s1 = stored_id ev (external_id s)"
      "current_chat s1 = current_chat s"
      by simp_all
    from s' show ?thesis
    proof
      assume "s' = s2"
      with s1 ev2 ext2 calls calls2 have
        "events s' = events s @ (ev @ ev2) \<and>
         external_id s' = stored_id (ev @ ev2) (external_id s) \<and>
         list_all (handed_chat (current_chat s)) (ev @ ev2)"
        by simp
      then show ?thesis by blast
    next
      assume p: "s' = persist_chat E s2"
      from persist_chat_neutral
        [of E s2 "stored_id (ev @ ev2) (external_id s)" "current_chat s"]
      obtain e
        where e: "events (persist_chat E s2) = events s2 @ [e]"
          "stored_id [e] (stored_id (ev @ ev2) (external_id s)) =
             stored_id (ev @ ev2) (external_id s)"
          "handed_chat (current_chat s) e"
        by blast
      from p s1 ev2 ext2 calls calls2 e have
        "events s' = events s @ (ev @ ev2 @ [e]) \<and>
         external_id s' = stored_id (ev @ ev2 @ [e]) (external_id s) \<and>
         list_all (handed_chat (current_chat s)) (ev @ ev2 @ [e])"
        by simp
      then show ?thesis by blast
    qed
  qed
qed

theorem stored_id_follows_replies_witness:
  "\<exists>s'. process_user_message (Suc (Suc 0)) example_env list_files loaded_session =
          Some (Inr (), s') \<and>
        external_id loaded_session = None \<and> external_id s' = Some ''id-2'' \<and>
        filter is_provider_call (events s') =
          [ProviderCall (stored_transcript @ [list_files])
             (Some \<lparr>record_id = ''c0'',
                    record_messages = stored_transcript @ [list_files],
                    record_external_id = Some ''id-0''\<rparr>)
             (Some ''prompt''),
           ProviderCall (stored_transcript @ [list_files, directive_message, tool_result])
             (Some \<lparr>record_id = ''c0'',
                    record_messages =
                      stored_transcript @ [list_files, directive_message, tool_result],
                    record_external_id = Some ''id-0''\<rparr>)
             (Some ''prompt'')] \<and>
        (\<exists>ev. events s' = events loaded_session @ ev \<and>
           external_id s' = stored_id ev (external_id loaded_session) \<and>
           list_all (handed_chat (current_chat loaded_session)) ev)"
proof -
  have "\<exists>s'. process_user_message (Suc (Suc 0)) example_env list_files loaded_session =
               Some (Inr (), s') \<and>
             external_id loaded_session = None \<and> external_id s' = Some ''id-2'' \<and>
             filter is_provider_call (events s') =
               [ProviderCall (stored_transcript @ [list_files])
                  (Some \<lparr>record_id = ''c0'',
                         record_messages = stored_transcript @ [list_files],
                         record_external_id = Some ''id-0''\<rparr>)
                  (Some ''prompt''),
                ProviderCall
                  (stored_transcript @ [list_files, directive_message, tool_result])
                  (Some \<lparr>record_id = ''c0'',
                         record_messages =
                           stored_transcript @ [list_files, directive_message, tool_result],
                         record_external_id = Some ''id-0''\<rparr>)
                  (Some ''prompt'')]"
    by (simp add: loaded_session_def load_chat_def example_env_def new_session_def
        stored_transcript_def list_files_def directive_reply_def final_reply_def
        directive_message_def tool_result_def create_message_def append_and_display_def
        emit_def store_external_id_def persist_chat_def get_user_confirmation_def
        auto_confirmed_def is_tool_use_part_def Let_def)
  then obtain s' where run:
    "process_user_message (Suc (Suc 0)) example_env list_files loaded_session =
       Some (Inr (), s')"
    and rest: "external_id loaded_session = None" "external_id s' = Some ''id-2''"
      "filter is_provider_call (events s') =
         [ProviderCall (stored_transcript @ [list_files])
            (Some \<lparr>record_id = ''c0'',
                   record_messages = stored_transcript @ [list_files],
                   record_external_id = Some ''id-0''\<rparr>)
            (Some ''prompt''),
          ProviderCall (stored_transcript @ [list_files, directive_message, tool_result])
            (Some \<lparr>record_id = ''c0'',
                   record_messages =
                     stored_transcript @ [list_files, directive_message, tool_result],
                   record_external_id = Some ''id-0''\<rparr>)
            (Some ''prompt'')]"
    by blast
  from run rest stored_id_follows_replies [OF run] show ?thesis by blast
qed



lemma process_user_message_appends:
  "process_user_message n E um s = Some (r, s') \<Longrightarrow>
     \<exists>ev app. events s' = events s @ ev \<and> messages s' = messages s @ um # app \<and>
              turn_appends E (replies ev) app"
proof (induction n arbitrary: um s r s')
  case 0
  then show ?case by simp
next
  case (Suc n)
  from Suc.prems have run:
    "(case one_round E um s of
        Raised e s' \<Rightarrow> Some (Inl e, s')
      | Finished s' \<Rightarrow> Some (Inr (), persist_chat E s')
      | Continue um' s' \<Rightarrow>
          (case process_user_message n E um' s' of
             None \<Rightarrow> None
           | Some (Inl e, s'') \<Rightarrow> Some (Inl e, s'')
           | Some (Inr u, s'') \<Rightarrow> Some (Inr (), persist_chat E s''))) = Some (r, s')"
    by (simp only: process_user_message_round)
  from round_appends [of E um s] obtain ev1 app1
    where ev1: "events (outcome_state (one_round E um s)) = events s @ ev1"
      and app1: "messages (outcome_state (one_round E um s)) = messages s @ um # app1"
      and shape1:
        "(case one_round E um s of
            Continue um' s1 \<Rightarrow>
              (\<exists>am sv t a.
                 replies ev1 = [am] \<and> contains_tool_use (content am) \<and>
                 extract_mcp_tool_use E (snd (split_content (content am))) =
                   Some (sv, t, a) \<and>
                 app1 = [am\<lparr>server := Some sv, tool := Some t, arguments := Some a,
                            content := fst (split_content (content am))\<rparr>] \<and>
                 um' = create_message ''user'' (execute_tool E sv t a)
                         (Some sv) (Some t) (Some a))
          | Raised e s1 \<Rightarrow> turn_appends E (replies ev1) app1
          | Finished s1 \<Rightarrow> turn_appends E (replies ev1) app1)"
    by blast
  show ?case
  proof (cases "one_round E um s")
    case (Raised e s1)
    with run have "s' = s1" by simp
    with Raised ev1 app1 shape1 show ?thesis by auto
  next
    case (Finished s1)
    with run have s': "s' = persist_chat E s1" by simp
    from persist_chat_neutral [of E s1] obtain e
      where e: "events (persist_chat E s1) = events s1 @ [e]" "replies [e] = []"
      by blast
    from s' Finished ev1 app1 shape1 e have
      "events s' = events s @ (ev1 @ [e]) \<and> messages s' = messages s @ um # app1 \<and>
       turn_appends E (replies (ev1 @ [e])) app1"
      by simp
    then show ?thesis by blast
  next
    case (Continue um' s1)
    with run obtain r2 s2
      where inner: "process_user_message n E um' s1 = Some (r2, s2)"
        and s': "s' = s2 \<or> s' = persist_chat E s2"
      by (auto split: option.splits sum.splits prod.splits)
    from Suc.IH [OF inner] obtain ev2 app2
      where ev2: "events s2 = events s1 @ ev2"
        and app2: "messages s2 = messages s1 @ um' # app2"
        and shape2: "turn_appends E (replies ev2) app2"
      by blast
    from Continue shape1 obtain am sv t a
      where am: "replies ev1 = [am]" "contains_tool_use (content am)"
        "extract_mcp_tool_use E (snd (split_content (content am))) = Some (sv, t, a)"
        "app1 = [am\<lparr>server := Some sv, tool := Some t, arguments := Some a,
                    content := fst (split_content (content am))\<rparr>]"
        "um' = create_message ''user'' (execute_tool E sv t a) (Some sv) (Some t) (Some a)"
      by auto
    from Continue ev1 app1 have s1:
      "events s1 = events s @ ev1" "messages s1 = messages s @ um # app1"
      by simp_all
    from am shape2 have shape: "turn_appends E (replies (ev1 @ ev2)) (app1 @ um' # app2)"
      by simp
    from s' show ?thesis
    proof
      assume "s' = s2"
      with s1 ev2 app2 shape have
        "events s' = events s @ (ev1 @ ev2) \<and>
         messages s' = messages s @ um # (app1 @ um' # app2) \<and>
         turn_appends E (replies (ev1 @ ev2)) (app1 @ um' # app2)"
        by simp
      then show ?thesis by blast
    next
      assume p: "s' = persist_chat E s2"
      from persist_chat_neutral [of E s2] obtain e
        where e: "events (persist_chat E s2) = events s2 @ [e]" "replies [e] = []"
        by blast
      from p s1 ev2 app2 shape e have
        "events s' = events s @ (ev1 @ ev2 @ [e]) \<and>
         messages s' = messages s @ um # (app1 @ um' # app2) \<and>
         turn_appends E (replies (ev1 @ ev2 @ [e])) (app1 @ um' # app2)"
        by simp
      then show ?thesis by blast
    qed
  qed
qed

text \<open>
  C9 as stated fails. A provider reply without tool-use part is appended as it is, so
  when the provider returns such a message with the three metadata fields set, the
  transcript holds an assistant message that carries tool metadata although its content
  was never rewritten, no directive was parsed and no tool was executed.
\<close>

theorem provider_metadata_is_kept:
  "map_option (messages \<circ> snd)
     (chat_input (Suc 0) adorning_env ''hello'' (new_session [] [])) =
     Some [create_message ''user'' (PlainText ''hello'') None None None, adorned_reply] \<and>
   role adorned_reply = ''assistant'' \<and>
   server adorned_reply = Some ''fs'' \<and> tool adorned_reply = Some ''list'' \<and>
   arguments adorned_reply = Some [''path'' \<mapsto> ''.''] \<and>
   \<not> contains_tool_use (content adorned_reply) \<and>
   map_option (filter is_execute_tool \<circ> events \<circ> snd)
     (chat_input (Suc 0) adorning_env ''hello'' (new_session [] [])) = Some []"
  by (simp add: chat_input_def adorning_env_def example_env_def adorned_reply_def
      new_session_def create_message_def append_and_display_def emit_def
      store_external_id_def persist_chat_def lower_def lower_char_def Let_def)

text \<open>
  C9 (as amended). A chat input that starts with \<open>copy \<close> leaves the transcript as it
  is. For any other chat input, whether the turn returns or raises, the transcript grows
  by the user message made from the input, which carries no tool metadata, followed by
  the messages that \<open>turn_appends\<close> describes from the provider's replies: a reply
  without tool-use part exactly as the provider returned it (the controller neither adds
  nor removes metadata); a tool directive, which is the reply with its content rewritten
  to the plain part and its server, tool and arguments set to what the extractor parsed;
  right after a directive, the cancellation message, which carries no tool metadata; or,
  right after a directive, the user message holding the executor's result, which carries
  exactly the directive's server, tool and arguments.
\<close>

theorem appended_messages_and_their_metadata:
  assumes "chat_input n E user_input s = Some (r, s')"
  shows "if take 5 (lower user_input) = ''copy '' then messages s' = messages s
         else (\<exists>ev app.
                 events s' = events s @ ClearLines 1 # ev \<and>
                 messages s' =
                   messages s @
                   create_message ''user'' (PlainText user_input) None None None # app \<and>
                 turn_appends E (replies ev) app)"
proof (cases "take 5 (lower user_input) = ''copy ''")
  case True
  with assms show ?thesis by (auto simp: chat_input_def)
next
  case False
  with assms have run:
    "process_user_message n E (create_message ''user'' (PlainText user_input) None None None)
       (emit (ClearLines 1) s) = Some (r, s')"
    by (simp add: chat_input_def)
  from process_user_message_appends [OF run] obtain ev app
    where "events s' = events (emit (ClearLines 1) s) @ ev"
      and "messages s' =
             messages (emit (ClearLines 1) s) @
             create_message ''user'' (PlainText user_input) None None None # app"
      and "turn_appends E (replies ev) app"
    by blast
  then have
    "events s' = events s @ ClearLines 1 # ev \<and>
     messages s' =
       messages s @ create_message ''user'' (PlainText user_input) None None None # app \<and>
     turn_appends E (replies ev) app"
    by simp
  with False show ?thesis by auto
qed

theorem appended_messages_and_their_metadata_witness:
  "\<exists>s'. chat_input (Suc (Suc 0)) example_env ''list files'' (new_session [''fs''] []) =
          Some (Inr (), s') \<and>
        messages s' = [list_files, directive_message, tool_result, final_reply] \<and>
        replies (events s') = [directive_reply, final_reply] \<and>
        turn_appends example_env [directive_reply, final_reply]
          [directive_message, tool_result, final_reply] \<and>
        (if take 5 (lower ''list files'') = ''copy ''
         then messages s' = messages (new_session [''fs''] [])
         else (\<exists>ev app.
                 events s' = events (new_session [''fs''] []) @ ClearLines 1 # ev \<and>
                 messages s' =
                   messages (new_session [''fs''] []) @
                   create_message ''user'' (PlainText ''list files'') None None None # app \<and>
                 turn_appends example_env (replies ev) app))"
proof -
  have "\<exists>s'. chat_input (Suc (Suc 0)) example_env ''list files''
               (new_session [''fs''] []) = Some (Inr (), s') \<and>
             messages s' = [list_files, directive_message, tool_result, final_reply] \<and>
             replies (events s') = [directive_reply, final_reply]"
    by (simp add: chat_input_def example_env_def new_session_def list_files_def
        directive_reply_def final_reply_def directive_message_def tool_result_def
        create_message_def append_and_display_def emit_def store_external_id_def
        persist_chat_def get_user_confirmation_def auto_confirmed_def
        is_tool_use_part_def lower_def lower_char_def Let_def)
  then obtain s' where run:
    "chat_input (Suc (Suc 0)) example_env ''list files'' (new_session [''fs''] []) =
       Some (Inr (), s')"
    and rest: "messages s' = [list_files, directive_message, tool_result, final_reply]"
      "replies (events s') = [directive_reply, final_reply]"
    by blast
  have shape: "turn_appends example_env [directive_reply, final_reply]
      [directive_message, tool_result, final_reply]"
    by (simp add: example_env_def directive_reply_def final_reply_def
        directive_message_def tool_result_def create_message_def is_tool_use_part_def)
  from run rest shape appended_messages_and_their_metadata [OF run] show ?thesis by blast
qed

theorem denied_tool_use_witness:
  "(\<exists>ev. process_assistant_message 0 example_env directive_reply (new_session [] [''n'']) =
      Some (Inr (), directive_message,
        (new_session [] [])
          \<lparr>messages := [directive_message],
           last_printed_text_output := Some ''Listing'',
           events := [DisplayMessagePanel directive_message 0,
                      ConsolePrint tool_use_detected, InputCall confirm_prompt]\<rparr>
          \<lparr>messages := messages (new_session [] [''n'']) @
             [directive_message,
              create_message ''user'' (PlainText ''Tool execution cancelled by user.'')
                None None None],
           events := events (new_session [] [''n'']) @
             DisplayMessagePanel directive_message (length (messages (new_session [] [''n''])))
               # ev @
             [ConsolePrint
                (CHR 0x0A # ''[yellow]Tool execution cancelled by user.[/yellow]'')]\<rparr>) \<and>
      list_all gate_event ev \<and> \<not> list_ex is_execute_tool ev \<and>
      \<not> list_ex is_provider_call ev) \<and>
   map_option (messages \<circ> snd \<circ> snd)
     (process_assistant_message 0 example_env directive_reply (new_session [] [''n''])) =
     Some [directive_message, cancellation]"
proof -
  let ?text = "[''type'' \<mapsto> ''text'', ''text'' \<mapsto> ''Listing'']"
  let ?tool = "[''type'' \<mapsto> ''tool_use'', ''server'' \<mapsto> ''fs'', ''tool'' \<mapsto> ''list'']"
  let ?sg = "(new_session [] [])
          \<lparr>messages := [directive_message],
           last_printed_text_output := Some ''Listing'',
           events := [DisplayMessagePanel directive_message 0,
                      ConsolePrint tool_use_detected, InputCall confirm_prompt]\<rparr>"
  have h1: "contains_tool_use (content directive_reply)"
    by (simp add: directive_reply_def is_tool_use_part_def)
  have h2: "split_content (content directive_reply) = (PartSequence [?text], [?tool])"
    by (simp add: directive_reply_def is_tool_use_part_def)
  have h3: "extract_mcp_tool_use example_env [?tool] = Some (''fs'', ''list'', [''path'' \<mapsto> ''.''])"
    by (simp add: example_env_def)
  have h4: "directive_message =
      directive_reply\<lparr>server := Some ''fs'', tool := Some ''list'',
        arguments := Some [''path'' \<mapsto> ''.''], content := PartSequence [?text]\<rparr>"
    by (simp add: directive_message_def directive_reply_def)
  have h5: "get_user_confirmation example_env [?tool] ''fs'' ''list''
      ((append_and_display directive_message (new_session [] [''n'']))
         \<lparr>last_printed_text_output := text_output (PartSequence [?text])\<rparr>) =
      (Inr False, ?sg)"
    by (simp add: get_user_confirmation_def auto_confirmed_def new_session_def
        append_and_display_def emit_def Let_def lower_def strip_def lower_char_def
        isspace_def)
  have run: "map_option (messages \<circ> snd \<circ> snd)
     (process_assistant_message 0 example_env directive_reply (new_session [] [''n''])) =
     Some [directive_message, cancellation]"
    by (simp add: example_env_def new_session_def directive_reply_def directive_message_def
        cancellation_def create_message_def no_exec_msg_def get_user_confirmation_def
        auto_confirmed_def append_and_display_def emit_def is_tool_use_part_def Let_def
        lower_def strip_def lower_char_def isspace_def)
  from denied_tool_use [OF h1 h2 h3 h4 h5, of 0] run show ?thesis by blast
qed

text \<open>
  C3. When the reply to a user message holds exactly one tool-use part, the extractor
  parses it and the gate approves, one round has appended exactly three messages when the
  next provider call is made: the user message, the assistant message carrying the tool
  metadata (its content rewritten to the other parts), and, after the executor call, the
  user message carrying the tool result and the same metadata. Exactly one further
  provider call follows, on that transcript; what it returns decides whether the turn
  ends (an exception or a terminal reply) or goes into another round.
\<close>

theorem tool_round_trip:
  assumes reply: "call_chat_completions E (messages s @ [um]) (chat_as_read (messages s @ [um]) (current_chat s))
                    (system_prompt s) = Inr (am, ext)"
    and parts: "content am = PartSequence ps"
    and one: "length (filter is_tool_use_part ps) = 1"
    and parse: "extract_mcp_tool_use E (filter is_tool_use_part ps) =
                  Some (server_name, tool_name, args)"
    and d: "d = am\<lparr>server := Some server_name, tool := Some tool_name,
                   arguments := Some args,
                   content := PartSequence (filter (\<lambda>p. \<not> is_tool_use_part p) ps)\<rparr>"
    and gate: "get_user_confirmation E (filter is_tool_use_part ps) server_name tool_name
                 ((append_and_display d
                     (store_external_id ext
                        (emit (ProviderReply am ext)
                           (emit (ProviderCall (messages s @ [um]) (chat_as_read (messages s @ [um]) (current_chat s))
                                    (system_prompt s))
                              ((append_and_display um s)
                                 \<lparr>last_printed_text_output :=
                                    text_output (content um)\<rparr>)))))
                    \<lparr>last_printed_text_output := text_output (content d)\<rparr>) =
               (Inr True, sg)"
    and res: "res = create_message ''user'' (execute_tool E server_name tool_name args)
                      (Some server_name) (Some tool_name) (Some args)"
    and sc: "sc = sg\<lparr>messages := messages s @ [um, d, res],
                     last_printed_text_output := text_output (content res),
                     events := events sg @
                       [ExecuteTool server_name tool_name args,
                        DisplayMessagePanel res (length (messages s) + 2),
                        ProviderCall (messages s @ [um, d, res]) (chat_as_read (messages s @ [um, d, res]) (current_chat s))
                          (system_prompt s)]\<rparr>"
  shows "messages sg = messages s @ [um, d] \<and>
         process_user_message (Suc (Suc n)) E um s =
           (case call_chat_completions E (messages s @ [um, d, res]) (chat_as_read (messages s @ [um, d, res]) (current_chat s))
                   (system_prompt s) of
              Inl e \<Rightarrow> Some (Inl (ProviderError e), sc)
            | Inr (am', ext') \<Rightarrow>
                (case process_assistant_message n E am'
                        (store_external_id ext' (emit (ProviderReply am' ext') sc)) of
                   None \<Rightarrow> None
                 | Some (Inl e, m, s4) \<Rightarrow> Some (Inl e, s4)
                 | Some (Inr u, m, s4) \<Rightarrow>
                     Some (Inr (), persist_chat E (persist_chat E s4))))"
proof -
  let ?s4 = "store_external_id ext
               (emit (ProviderReply am ext)
                  (emit (ProviderCall (messages s @ [um]) (chat_as_read (messages s @ [um]) (current_chat s)) (system_prompt s))
                     ((append_and_display um s)
                        \<lparr>last_printed_text_output := text_output (content um)\<rparr>)))"
  let ?s5 = "(append_and_display d ?s4)\<lparr>last_printed_text_output := text_output (content d)\<rparr>"
  have sg: "sg = snd (get_user_confirmation E (filter is_tool_use_part ps)
                        server_name tool_name ?s5)"
    using gate by simp
  have fields: "messages sg = messages s @ [um, d]" "current_chat sg = current_chat s"
    "system_prompt sg = system_prompt s"
    unfolding sg by simp_all
  from one have "filter is_tool_use_part ps \<noteq> []" by auto
  with parts have tool: "contains_tool_use (content am)"
    by (simp add: list_ex_iff filter_empty_conv)
  have split: "split_content (content am) = (content d, filter is_tool_use_part ps)"
    using parts d by simp
  have step1: "process_user_message (Suc (Suc n)) E um s =
      (case process_assistant_message (Suc n) E am ?s4 of
         None \<Rightarrow> None
       | Some (Inl e, m, s4) \<Rightarrow> Some (Inl e, s4)
       | Some (Inr u, m, s4) \<Rightarrow> Some (Inr (), persist_chat E s4))"
    using reply by (simp add: Let_def del: process_assistant_message.simps)
  have step2: "process_assistant_message (Suc n) E am ?s4 =
      (case process_user_message (Suc n) E res
              (emit (ExecuteTool server_name tool_name args) sg) of
         None \<Rightarrow> None
       | Some (r, s3) \<Rightarrow> Some (r, d, s3))"
    using tool split parse gate d res
    by (simp add: Let_def del: process_user_message.simps split: option.splits prod.splits)
  have step3: "process_user_message (Suc n) E res
                 (emit (ExecuteTool server_name tool_name args) sg) =
      (case call_chat_completions E (messages s @ [um, d, res]) (chat_as_read (messages s @ [um, d, res]) (current_chat s))
              (system_prompt s) of
         Inl e \<Rightarrow> Some (Inl (ProviderError e), sc)
       | Inr (am', ext') \<Rightarrow>
           (case process_assistant_message n E am'
                   (store_external_id ext' (emit (ProviderReply am' ext') sc)) of
              None \<Rightarrow> None
            | Some (Inl e, m, s4) \<Rightarrow> Some (Inl e, s4)
            | Some (Inr u, m, s4) \<Rightarrow> Some (Inr (), persist_chat E s4)))"
    by (auto simp: Let_def fields sc emit_def append_and_display_def
        simp del: process_assistant_message.simps split: sum.splits prod.splits)
  show ?thesis
    unfolding step1 step2 step3
    by (auto simp: fields simp del: process_assistant_message.simps process_user_message.simps
        split: sum.splits option.splits prod.splits)
qed

theorem tool_round_trip_witness:
  "map_option (messages \<circ> snd)
     (process_user_message (Suc (Suc 0)) example_env list_files (new_session [''fs''] [])) =
     Some [list_files, directive_message, tool_result, final_reply] \<and>
   map_option (filter is_provider_call \<circ> events \<circ> snd)
     (process_user_message (Suc (Suc 0)) example_env list_files (new_session [''fs''] [])) =
     Some [ProviderCall [list_files] None (Some ''prompt''),
           ProviderCall [list_files, directive_message, tool_result] None (Some ''prompt'')]"
proof -
  let ?text = "[''type'' \<mapsto> ''text'', ''text'' \<mapsto> ''Listing'']"
  let ?tool = "[''type'' \<mapsto> ''tool_use'', ''server'' \<mapsto> ''fs'', ''tool'' \<mapsto> ''list'']"
  let ?s = "new_session [''fs''] []"
  let ?sg = "?s\<lparr>external_id := Some ''id-1'',
               messages := [list_files, directive_message],
               last_printed_text_output := Some ''Listing'',
               events := [DisplayMessagePanel list_files 0,
                          ProviderCall [list_files] None (Some ''prompt''),
                          ProviderReply directive_reply (Some ''id-1''),
                          DisplayMessagePanel directive_message 1]\<rparr>"
  let ?sc = "?sg\<lparr>messages := messages ?s @ [list_files, directive_message, tool_result],
                last_printed_text_output := text_output (content tool_result),
                events := events ?sg @
                  [ExecuteTool ''fs'' ''list'' [''path'' \<mapsto> ''.''],
                   DisplayMessagePanel tool_result (length (messages ?s) + 2),
                   ProviderCall (messages ?s @ [list_files, directive_message, tool_result])
                     (chat_as_read (messages ?s @ [list_files, directive_message, tool_result]) (current_chat ?s)) (system_prompt ?s)]\<rparr>"
  have h1: "call_chat_completions example_env (messages ?s @ [list_files]) (chat_as_read (messages ?s @ [list_files]) (current_chat ?s))
              (system_prompt ?s) = Inr (directive_reply, Some ''id-1'')"
    by (simp add: example_env_def new_session_def list_files_def create_message_def)
  have h2: "content directive_reply = PartSequence [?text, ?tool]"
    by (simp add: directive_reply_def)
  have h3: "length (filter is_tool_use_part [?text, ?tool]) = 1"
    by (simp add: is_tool_use_part_def)
  have f: "filter is_tool_use_part [?text, ?tool] = [?tool]"
    "filter (\<lambda>p. \<not> is_tool_use_part p) [?text, ?tool] = [?text]"
    by (simp_all add: is_tool_use_part_def)
  have h4: "extract_mcp_tool_use example_env (filter is_tool_use_part [?text, ?tool]) =
              Some (''fs'', ''list'', [''path'' \<mapsto> ''.''])"
    unfolding f by (simp add: example_env_def)
  have h5: "directive_message =
      directive_reply\<lparr>server := Some ''fs'', tool := Some ''list'',
        arguments := Some [''path'' \<mapsto> ''.''],
        content := PartSequence (filter (\<lambda>p. \<not> is_tool_use_part p) [?text, ?tool])\<rparr>"
    unfolding f by (simp add: directive_message_def directive_reply_def)
  have h6: "get_user_confirmation example_env (filter is_tool_use_part [?text, ?tool])
              ''fs'' ''list''
              ((append_and_display directive_message
                  (store_external_id (Some ''id-1'')
                     (emit (ProviderReply directive_reply (Some ''id-1''))
                        (emit (ProviderCall (messages ?s @ [list_files]) (chat_as_read (messages ?s @ [list_files]) (current_chat ?s))
                                 (system_prompt ?s))
                           ((append_and_display list_files ?s)
                              \<lparr>last_printed_text_output :=
                                 text_output (content list_files)\<rparr>)))))
                 \<lparr>last_printed_text_output := text_output (content directive_message)\<rparr>) =
            (Inr True, ?sg)"
    unfolding f
    by (simp add: get_user_confirmation_def auto_confirmed_def example_env_def
        new_session_def append_and_display_def emit_def store_external_id_def
        directive_message_def)
  have h7: "tool_result =
      create_message ''user'' (execute_tool example_env ''fs'' ''list'' [''path'' \<mapsto> ''.''])
        (Some ''fs'') (Some ''list'') (Some [''path'' \<mapsto> ''.''])"
    by (simp add: tool_result_def example_env_def)
  have h8: "?sc = ?sc" by (rule refl)
  from tool_round_trip [OF h1 h2 h3 h4 h5 h6 h7 h8, of 0]
  have eq: "process_user_message (Suc (Suc 0)) example_env list_files ?s =
      (case call_chat_completions example_env
              (messages ?s @ [list_files, directive_message, tool_result]) (chat_as_read (messages ?s @ [list_files, directive_message, tool_result]) (current_chat ?s))
              (system_prompt ?s) of
         Inl e \<Rightarrow> Some (Inl (ProviderError e), ?sc)
       | Inr (am', ext') \<Rightarrow>
           (case process_assistant_message 0 example_env am'
                   (store_external_id ext' (emit (ProviderReply am' ext') ?sc)) of
              None \<Rightarrow> None
            | Some (Inl e, m, s4) \<Rightarrow> Some (Inl e, s4)
            | Some (Inr u, m, s4) \<Rightarrow>
                Some (Inr (), persist_chat example_env (persist_chat example_env s4))))"
    by blast
  show ?thesis
    unfolding eq
    by (simp add: example_env_def new_session_def final_reply_def tool_result_def
        create_message_def append_and_display_def emit_def store_external_id_def
        persist_chat_def)
qed

end
